theory Spec2Isabelle
  imports Complex_Main
begin

section \<open>The ISA model of \<^verbatim>\<open>src/lib/isa-calculations.ts\<close>\<close>

text \<open>
  The formulas of the atmosphere model are over \<^typ>\<open>real\<close>: \<^verbatim>\<open>Math.exp\<close> is
  \<^const>\<open>exp\<close>, \<^verbatim>\<open>Math.sqrt\<close> is \<^const>\<open>sqrt\<close> and \<^verbatim>\<open>Math.pow\<close> is
  \<^const>\<open>powr\<close>; the three agree with the JavaScript functions on the arguments
  the model reaches (positive bases, non-negative radicands), which is proved below.
  Where the control flow or the value returned depends on the rounding of the TypeScript
  type \<^verbatim>\<open>number\<close> (the loop variable of the profile generator, the unit conversions)
  the operations are those of IEEE 754 binary64: round to nearest, ties to even, with
  overflow to the infinities. Arguments are finite numbers; NaN is outside the model.
\<close>

subsection \<open>Physical constants (\<^verbatim>\<open>ISA_CONSTANTS\<close>)\<close>

text \<open>
  The fields of the object \<^verbatim>\<open>ISA_CONSTANTS\<close>, one constant each; the functions below
  read \<^verbatim>\<open>g0\<close>, \<^verbatim>\<open>R\<close> and \<^verbatim>\<open>gamma\<close> only.
\<close>

definition ISA_g0 :: real where
  "ISA_g0 = 9.80665"

definition ISA_R :: real where
  "ISA_R = 287.05287"

definition ISA_M :: real where
  "ISA_M = 0.0289644"

definition ISA_Rstar :: real where
  "ISA_Rstar = 8.31432"

definition ISA_gamma :: real where
  "ISA_gamma = 1.4"

definition ISA_T0 :: real where
  "ISA_T0 = 288.15"

definition ISA_P0 :: real where
  "ISA_P0 = 101325"

definition ISA_rho0 :: real where
  "ISA_rho0 = 1.225"

subsection \<open>The layer table\<close>

record AtmosphericLayer =
  name :: string
  baseAltitude :: real
  baseTemperature :: real
  lapseRate :: real
  basePressure :: real

definition LAYERS :: "AtmosphericLayer list" where
  "LAYERS =
    [\<lparr>name = ''Troposphere'', baseAltitude = 0, baseTemperature = 288.15,
      lapseRate = - 0.0065, basePressure = 101325\<rparr>,
     \<lparr>name = ''Tropopause'', baseAltitude = 11000, baseTemperature = 216.65,
      lapseRate = 0, basePressure = 22632.1\<rparr>,
     \<lparr>name = ''Stratosphere I'', baseAltitude = 20000, baseTemperature = 216.65,
      lapseRate = 0.001, basePressure = 5474.89\<rparr>,
     \<lparr>name = ''Stratosphere II'', baseAltitude = 32000, baseTemperature = 228.65,
      lapseRate = 0.0028, basePressure = 868.019\<rparr>,
     \<lparr>name = ''Stratopause'', baseAltitude = 47000, baseTemperature = 270.65,
      lapseRate = 0, basePressure = 110.906\<rparr>,
     \<lparr>name = ''Mesosphere I'', baseAltitude = 51000, baseTemperature = 270.65,
      lapseRate = - 0.0028, basePressure = 66.9389\<rparr>,
     \<lparr>name = ''Mesosphere II'', baseAltitude = 71000, baseTemperature = 214.65,
      lapseRate = - 0.002, basePressure = 3.95642\<rparr>,
     \<lparr>name = ''Mesopause'', baseAltitude = 86000, baseTemperature = 186.87,
      lapseRate = 0, basePressure = 0.3734\<rparr>]"

subsection \<open>Layer resolution\<close>

text \<open>
  The loop \<^verbatim>\<open>for (let i = LAYERS.length - 1; i >= 0; i--)\<close>: the first argument is
  the number of table entries still to be inspected, so \<open>Suc i\<close> stands for the
  JavaScript index \<open>i\<close>. When the loop runs out the function returns \<^verbatim>\<open>LAYERS[0]\<close>.
\<close>

fun getLayer_loop :: "nat \<Rightarrow> real \<Rightarrow> AtmosphericLayer" where
  "getLayer_loop 0 altitudeM = LAYERS ! 0"
| "getLayer_loop (Suc i) altitudeM =
     (if altitudeM \<ge> baseAltitude (LAYERS ! i) then LAYERS ! i
      else getLayer_loop i altitudeM)"

definition getLayer :: "real \<Rightarrow> AtmosphericLayer" where
  "getLayer altitudeM = getLayer_loop (length LAYERS) altitudeM"

subsection \<open>Single-quantity functions\<close>

definition calculateTemperature :: "real \<Rightarrow> real" where
  "calculateTemperature altitudeM =
     (let layer = getLayer altitudeM;
          deltaH = altitudeM - baseAltitude layer
      in baseTemperature layer + lapseRate layer * deltaH)"

definition calculatePressure :: "real \<Rightarrow> real" where
  "calculatePressure altitudeM =
     (let layer = getLayer altitudeM;
          deltaH = altitudeM - baseAltitude layer;
          T = calculateTemperature altitudeM
      in if lapseRate layer = 0
         then basePressure layer * exp ((- ISA_g0 * deltaH) / (ISA_R * T))
         else (let exponent = - ISA_g0 / (lapseRate layer * ISA_R)
               in basePressure layer * (T / baseTemperature layer) powr exponent))"

definition calculateDensity :: "real \<Rightarrow> real \<Rightarrow> real" where
  "calculateDensity pressure temperature = pressure / (ISA_R * temperature)"

definition calculateSpeedOfSound :: "real \<Rightarrow> real" where
  "calculateSpeedOfSound temperature = sqrt (ISA_gamma * ISA_R * temperature)"

definition calculateDynamicViscosity :: "real \<Rightarrow> real" where
  "calculateDynamicViscosity temperature =
     (let mu0 = 1.7894 / 10 ^ 5; T0 = 288.15; S = 110.4
      in mu0 * (temperature / T0) powr 1.5 * ((T0 + S) / (temperature + S)))"

subsection \<open>The full state at one altitude\<close>

record AtmosphericResult =
  altitude :: real
  temperature :: real
  temperatureCelsius :: real
  pressure :: real
  density :: real
  speedOfSound :: real
  dynamicViscosity :: real
  kinematicViscosity :: real
  layer :: AtmosphericLayer
  layerName :: string

definition calculateAtmosphere :: "real \<Rightarrow> AtmosphericResult" where
  "calculateAtmosphere altitudeM =
     (let clampedAlt = max 0 (min 86000 altitudeM);
          layer = getLayer clampedAlt;
          temperature = calculateTemperature clampedAlt;
          pressure = calculatePressure clampedAlt;
          density = calculateDensity pressure temperature;
          speedOfSound = calculateSpeedOfSound temperature;
          dynamicViscosity = calculateDynamicViscosity temperature;
          kinematicViscosity = dynamicViscosity / density
      in \<lparr>altitude = clampedAlt,
          temperature = temperature,
          temperatureCelsius = temperature - 273.15,
          pressure = pressure,
          density = density,
          speedOfSound = speedOfSound,
          dynamicViscosity = dynamicViscosity,
          kinematicViscosity = kinematicViscosity,
          layer = layer,
          layerName = name layer\<rparr>)"

subsection \<open>Numbers in binary64\<close>

text \<open>
  A value of type \<^verbatim>\<open>number\<close> that an operation on finite numbers can produce: a
  finite value or an infinity.
\<close>

datatype number = Finite real | PosInfinity | NegInfinity

text \<open>The nearest integer, the even one of two at equal distance.\<close>

definition roundTiesToEven :: "real \<Rightarrow> int" where
  "roundTiesToEven x =
     (let f = \<lfloor>x\<rfloor>; d = x - of_int f
      in if d < 1 / 2 then f
         else if 1 / 2 < d then f + 1
         else if even f then f else f + 1)"

text \<open>
  The binary exponent of \<open>x\<close>, not below that of the subnormal numbers, and the spacing
  of the binary64 values around \<open>x\<close>: 53 significant bits.
\<close>

definition binary64_exponent :: "real \<Rightarrow> int" where
  "binary64_exponent x = max \<lfloor>log 2 \<bar>x\<bar>\<rfloor> (- 1022)"

definition binary64_ulp :: "real \<Rightarrow> real" where
  "binary64_ulp x = 2 powr of_int (binary64_exponent x - 52)"

text \<open>
  The multiple of that spacing nearest to \<open>x\<close>, the largest finite binary64 value, and
  the result of an operation whose exact value is \<open>x\<close>: the nearest value, or an
  infinity when the nearest value is beyond the largest finite one.
\<close>

definition binary64_nearest :: "real \<Rightarrow> real" where
  "binary64_nearest x =
     (if x = 0 then 0
      else binary64_ulp x * of_int (roundTiesToEven (x / binary64_ulp x)))"

definition binary64_max :: real where
  "binary64_max = 2 ^ 1024 - 2 ^ 971"

definition binary64_round :: "real \<Rightarrow> number" where
  "binary64_round x =
     (let r = binary64_nearest x
      in if binary64_max < r then PosInfinity
         else if r < - binary64_max then NegInfinity
         else Finite r)"

text \<open>The finite binary64 values are the numbers that rounding leaves alone.\<close>

definition is_binary64 :: "real \<Rightarrow> bool" where
  "is_binary64 x \<longleftrightarrow> binary64_round x = Finite x"

text \<open>
  The operations the source applies to a value that may have overflowed, the other
  operand being finite: \<^verbatim>\<open>alt += stepM\<close>, \<^verbatim>\<open>alt <= endAltM\<close>, and the multiplication
  and division by a conversion factor, which is positive.
\<close>

fun number_add :: "number \<Rightarrow> real \<Rightarrow> number" where
  "number_add (Finite a) s = binary64_round (a + s)"
| "number_add PosInfinity s = PosInfinity"
| "number_add NegInfinity s = NegInfinity"

fun number_le :: "number \<Rightarrow> real \<Rightarrow> bool" where
  "number_le (Finite a) e = (a \<le> e)"
| "number_le PosInfinity e = False"
| "number_le NegInfinity e = True"



subsection \<open>The profile generator\<close>

text \<open>
  \<^verbatim>\<open>calculateAtmosphere\<close> at the loop variable. \<^verbatim>\<open>Math.min(86000, Infinity)\<close> is
  86000 and \<^verbatim>\<open>Math.max(0, Math.min(86000, -Infinity))\<close> is 0, so at an infinity the
  function computes the result of the bound.
\<close>

fun calculateAtmosphere_number :: "number \<Rightarrow> AtmosphericResult" where
  "calculateAtmosphere_number (Finite a) = calculateAtmosphere a"
| "calculateAtmosphere_number PosInfinity = calculateAtmosphere 86000"
| "calculateAtmosphere_number NegInfinity = calculateAtmosphere 0"

text \<open>
  The loop \<^verbatim>\<open>for (let alt = startAltM; alt <= endAltM; alt += stepM)\<close> has no bound
  of its own, so it is a partial function: \<open>None\<close> is a run that never leaves the loop.
  Each \<^verbatim>\<open>alt += stepM\<close> rounds. The source has no \<^verbatim>\<open>throw\<close>, hence no error value
  in the result type. The three arguments are finite binary64 values.
\<close>

partial_function (option) generateProfile_loop ::
  "number \<Rightarrow> real \<Rightarrow> real \<Rightarrow> AtmosphericResult list \<Rightarrow> AtmosphericResult list option" where
  "generateProfile_loop alt endAltM stepM results =
     (if number_le alt endAltM
      then generateProfile_loop (number_add alt stepM) endAltM stepM
             (results @ [calculateAtmosphere_number alt])
      else Some results)"

definition generateProfile :: "real \<Rightarrow> real \<Rightarrow> real \<Rightarrow> AtmosphericResult list option" where
  "generateProfile startAltM endAltM stepM =
     generateProfile_loop (Finite startAltM) endAltM stepM []"

text \<open>
  The number of iterations the loop makes when no addition rounds, used to state its
  result: the altitudes \<open>start + k * step\<close> with \<open>start + k * step \<le> end\<close>.
\<close>

definition sampleCount :: "real \<Rightarrow> real \<Rightarrow> real \<Rightarrow> nat" where
  "sampleCount startAltM endAltM stepM =
     (if startAltM \<le> endAltM then nat \<lfloor>(endAltM - startAltM) / stepM\<rfloor> + 1 else 0)"

subsection \<open>Unit conversion\<close>




section \<open>Properties\<close>

subsection \<open>The layer table and its resolution\<close>

lemma length_LAYERS: "length LAYERS = 8"
  by (simp add: LAYERS_def)

lemma LAYERS_nth:
  "LAYERS ! 0 = \<lparr>name = ''Troposphere'', baseAltitude = 0, baseTemperature = 288.15,
      lapseRate = - 0.0065, basePressure = 101325\<rparr>"
  "LAYERS ! Suc 0 = \<lparr>name = ''Tropopause'', baseAltitude = 11000, baseTemperature = 216.65,
      lapseRate = 0, basePressure = 22632.1\<rparr>"
  "LAYERS ! 2 = \<lparr>name = ''Stratosphere I'', baseAltitude = 20000, baseTemperature = 216.65,
      lapseRate = 0.001, basePressure = 5474.89\<rparr>"
  "LAYERS ! 3 = \<lparr>name = ''Stratosphere II'', baseAltitude = 32000, baseTemperature = 228.65,
      lapseRate = 0.0028, basePressure = 868.019\<rparr>"
  "LAYERS ! 4 = \<lparr>name = ''Stratopause'', baseAltitude = 47000, baseTemperature = 270.65,
      lapseRate = 0, basePressure = 110.906\<rparr>"
  "LAYERS ! 5 = \<lparr>name = ''Mesosphere I'', baseAltitude = 51000, baseTemperature = 270.65,
      lapseRate = - 0.0028, basePressure = 66.9389\<rparr>"
  "LAYERS ! 6 = \<lparr>name = ''Mesosphere II'', baseAltitude = 71000, baseTemperature = 214.65,
      lapseRate = - 0.002, basePressure = 3.95642\<rparr>"
  "LAYERS ! 7 = \<lparr>name = ''Mesopause'', baseAltitude = 86000, baseTemperature = 186.87,
      lapseRate = 0, basePressure = 0.3734\<rparr>"
  by (simp_all add: LAYERS_def)

lemma LAYERS_strictly_ascending: "sorted_wrt (<) (map baseAltitude LAYERS)"
  by (simp add: LAYERS_def)

lemma LAYERS_ascending: "sorted (map baseAltitude LAYERS)"
  using LAYERS_strictly_ascending by (rule strict_sorted_imp_sorted)

text \<open>The eight iterations of the scan, written out.\<close>

lemma getLayer_unfold:
  "getLayer h =
     (if baseAltitude (LAYERS ! 7) \<le> h then LAYERS ! 7
      else if baseAltitude (LAYERS ! 6) \<le> h then LAYERS ! 6
      else if baseAltitude (LAYERS ! 5) \<le> h then LAYERS ! 5
      else if baseAltitude (LAYERS ! 4) \<le> h then LAYERS ! 4
      else if baseAltitude (LAYERS ! 3) \<le> h then LAYERS ! 3
      else if baseAltitude (LAYERS ! 2) \<le> h then LAYERS ! 2
      else if baseAltitude (LAYERS ! Suc 0) \<le> h then LAYERS ! Suc 0
      else LAYERS ! 0)"
  by (simp add: getLayer_def length_LAYERS eval_nat_numeral)

lemma getLayer_ranges:
  "getLayer h =
     (if 86000 \<le> h then LAYERS ! 7
      else if 71000 \<le> h then LAYERS ! 6
      else if 51000 \<le> h then LAYERS ! 5
      else if 47000 \<le> h then LAYERS ! 4
      else if 32000 \<le> h then LAYERS ! 3
      else if 20000 \<le> h then LAYERS ! 2
      else if 11000 \<le> h then LAYERS ! Suc 0
      else LAYERS ! 0)"
proof -
  have "baseAltitude (LAYERS ! 7) = 86000" "baseAltitude (LAYERS ! 6) = 71000"
    "baseAltitude (LAYERS ! 5) = 51000" "baseAltitude (LAYERS ! 4) = 47000"
    "baseAltitude (LAYERS ! 3) = 32000" "baseAltitude (LAYERS ! 2) = 20000"
    "baseAltitude (LAYERS ! Suc 0) = 11000"
    by (simp_all add: LAYERS_nth)
  then show ?thesis unfolding getLayer_unfold by (simp only:)
qed

text \<open>
  The scan over the first \<open>i\<close> entries returns the entry of the largest index whose base
  altitude is at most \<open>h\<close>, when there is one, and entry 0 when there is none.
\<close>

lemma getLayer_loop_found:
  "\<exists>j<i. baseAltitude (LAYERS ! j) \<le> h \<Longrightarrow>
   \<exists>k<i. getLayer_loop i h = LAYERS ! k \<and> baseAltitude (LAYERS ! k) \<le> h
        \<and> (\<forall>j<i. baseAltitude (LAYERS ! j) \<le> h \<longrightarrow> j \<le> k)"
proof (induction i)
  case 0
  then show ?case by simp
next
  case (Suc i)
  show ?case
  proof (cases "baseAltitude (LAYERS ! i) \<le> h")
    case True
    then show ?thesis by (auto simp: less_Suc_eq_le intro!: exI [of _ i])
  next
    case False
    with Suc.prems obtain j where "j < i" "baseAltitude (LAYERS ! j) \<le> h"
      by (auto simp: less_Suc_eq)
    with Suc.IH obtain k where k: "k < i" "getLayer_loop i h = LAYERS ! k"
      "baseAltitude (LAYERS ! k) \<le> h" "\<forall>j<i. baseAltitude (LAYERS ! j) \<le> h \<longrightarrow> j \<le> k"
      by blast
    with False show ?thesis
      by (auto simp: less_Suc_eq intro!: exI [of _ k])
  qed
qed

lemma getLayer_loop_none:
  "\<forall>j<i. \<not> baseAltitude (LAYERS ! j) \<le> h \<Longrightarrow> getLayer_loop i h = LAYERS ! 0"
  by (induction i) auto

text \<open>
  Claim C8. For an altitude \<open>h\<close> at or above the first base, \<open>getLayer h\<close> is an entry
  of the table whose base altitude is at most \<open>h\<close> and no entry with a base altitude at
  most \<open>h\<close> has a greater one; for \<open>h\<close> below the first base (\<open>h < 0\<close>) it is the first
  entry, the Troposphere.
\<close>

theorem getLayer_greatest_base:
  "(0 \<le> h \<longrightarrow>
      getLayer h \<in> set LAYERS \<and> baseAltitude (getLayer h) \<le> h
      \<and> (\<forall>l \<in> set LAYERS. baseAltitude l \<le> h \<longrightarrow> baseAltitude l \<le> baseAltitude (getLayer h)))
   \<and> (h < 0 \<longrightarrow> getLayer h = LAYERS ! 0 \<and> name (getLayer h) = ''Troposphere'')"
proof (intro conjI impI)
  assume h: "0 \<le> h"
  have "\<exists>j<length LAYERS. baseAltitude (LAYERS ! j) \<le> h"
    using h by (intro exI [of _ 0]) (simp add: length_LAYERS LAYERS_nth)
  from getLayer_loop_found [OF this]
  obtain k where k: "k < length LAYERS" "getLayer h = LAYERS ! k"
    "baseAltitude (LAYERS ! k) \<le> h"
    "\<forall>j<length LAYERS. baseAltitude (LAYERS ! j) \<le> h \<longrightarrow> j \<le> k"
    unfolding getLayer_def by blast
  show "getLayer h \<in> set LAYERS" using k by simp
  show "baseAltitude (getLayer h) \<le> h" using k by simp
  show "\<forall>l \<in> set LAYERS. baseAltitude l \<le> h \<longrightarrow> baseAltitude l \<le> baseAltitude (getLayer h)"
  proof (intro ballI impI)
    fix l assume "l \<in> set LAYERS" and le: "baseAltitude l \<le> h"
    then obtain j where j: "j < length LAYERS" "l = LAYERS ! j"
      by (auto simp: in_set_conv_nth)
    with k le have "j \<le> k" by blast
    from sorted_nth_mono [OF LAYERS_ascending this] k j
    show "baseAltitude l \<le> baseAltitude (getLayer h)"
      by simp
  qed
next
  assume h: "h < 0"
  have "\<forall>j<length LAYERS. \<not> baseAltitude (LAYERS ! j) \<le> h"
  proof (intro allI impI)
    fix j assume j: "j < length LAYERS"
    from sorted_nth_mono [OF LAYERS_ascending, of 0 j] j
    have "baseAltitude (LAYERS ! 0) \<le> baseAltitude (LAYERS ! j)"
      by (simp add: length_LAYERS)
    moreover have "baseAltitude (LAYERS ! 0) = 0" by (simp add: LAYERS_nth)
    ultimately show "\<not> baseAltitude (LAYERS ! j) \<le> h" using h by simp
  qed
  from getLayer_loop_none [OF this] show g: "getLayer h = LAYERS ! 0"
    by (simp add: getLayer_def)
  show "name (getLayer h) = ''Troposphere''"
    unfolding g by (simp add: LAYERS_nth)
qed

theorem getLayer_greatest_base_witness:
  "0 \<le> (15000::real) \<and> getLayer 15000 \<in> set LAYERS \<and> baseAltitude (getLayer 15000) \<le> 15000
   \<and> (- 1 :: real) < 0 \<and> getLayer (- 1) = LAYERS ! 0"
  using getLayer_greatest_base [of 15000] getLayer_greatest_base [of "- 1"] by simp

subsection \<open>Temperature, layer by layer\<close>

lemma calculateTemperature_ranges:
  "calculateTemperature h =
     (if 86000 \<le> h then 186.87
      else if 71000 \<le> h then 214.65 - 0.002 * (h - 71000)
      else if 51000 \<le> h then 270.65 - 0.0028 * (h - 51000)
      else if 47000 \<le> h then 270.65
      else if 32000 \<le> h then 228.65 + 0.0028 * (h - 32000)
      else if 20000 \<le> h then 216.65 + 0.001 * (h - 20000)
      else if 11000 \<le> h then 216.65
      else 288.15 - 0.0065 * h)"
  unfolding calculateTemperature_def Let_def getLayer_ranges
  by (simp add: LAYERS_nth)

lemma calculateTemperature_lower_bound: "184.65 < calculateTemperature h"
proof -
  have "184.65 < (if c then a else b)" if "c \<Longrightarrow> 184.65 < a" "\<not> c \<Longrightarrow> 184.65 < b"
    for c and a b :: real
    using that by simp
  note step = this
  show ?thesis
    unfolding calculateTemperature_ranges
    by (intro step) (simp_all add: field_simps)
qed

lemma calculateTemperature_pos: "0 < calculateTemperature h"
  using calculateTemperature_lower_bound [of h] by simp

lemma baseTemperature_pos: "0 < baseTemperature (getLayer h)"
  unfolding getLayer_ranges by (simp add: LAYERS_nth)

lemma lapseRate_zero_iff:
  "lapseRate (getLayer h) = 0 \<longleftrightarrow>
     (11000 \<le> h \<and> h < 20000) \<or> (47000 \<le> h \<and> h < 51000) \<or> 86000 \<le> h"
  unfolding getLayer_ranges by (simp add: LAYERS_nth)

lemma ISA_R_pos: "0 < ISA_R"
  by (simp add: ISA_R_def)

lemma ISA_g0_pos: "0 < ISA_g0"
  by (simp add: ISA_g0_def)

text \<open>
  The arguments under which the model's \<^const>\<open>powr\<close>, \<^const>\<open>sqrt\<close> and division are
  the JavaScript operations: the temperature, the pressure and the density are positive
  at every altitude, so no base of a power and no divisor is zero or negative.
\<close>

lemma basePressure_pos: "0 < basePressure (getLayer h)"
  unfolding getLayer_ranges by (simp add: LAYERS_nth)

lemma calculatePressure_pos: "0 < calculatePressure h"
proof -
  have "calculateTemperature h / baseTemperature (getLayer h) \<noteq> 0"
    using calculateTemperature_pos [of h] baseTemperature_pos [of h] by simp
  then show ?thesis
    using basePressure_pos [of h] by (simp add: calculatePressure_def Let_def)
qed

lemma calculateDensity_pos:
  "0 < calculateDensity (calculatePressure h) (calculateTemperature h)"
  using calculatePressure_pos [of h] calculateTemperature_pos [of h] ISA_R_pos
  by (simp add: calculateDensity_def)

lemma speedOfSound_radicand_pos: "0 < ISA_gamma * ISA_R * calculateTemperature h"
  using calculateTemperature_pos [of h] by (simp add: ISA_gamma_def ISA_R_def)

lemma viscosity_arguments_pos:
  "0 < calculateTemperature h / 288.15" "0 < calculateTemperature h + 110.4"
  using calculateTemperature_pos [of h] by simp_all

subsection \<open>The fields of a result\<close>

lemma calculateAtmosphere_fields:
  "altitude (calculateAtmosphere h) = max 0 (min 86000 h)"
  "layer (calculateAtmosphere h) = getLayer (max 0 (min 86000 h))"
  "layerName (calculateAtmosphere h) = name (getLayer (max 0 (min 86000 h)))"
  "temperature (calculateAtmosphere h) = calculateTemperature (max 0 (min 86000 h))"
  "pressure (calculateAtmosphere h) = calculatePressure (max 0 (min 86000 h))"
  "density (calculateAtmosphere h) =
     calculateDensity (pressure (calculateAtmosphere h)) (temperature (calculateAtmosphere h))"
  by (simp_all add: calculateAtmosphere_def Let_def)

subsection \<open>Clamping\<close>

lemma clamp_idem: "max 0 (min 86000 (max 0 (min 86000 (h::real)))) = max 0 (min 86000 h)"
  by simp

text \<open>
  Claim C1. For every real altitude \<open>h\<close>, \<open>calculateAtmosphere h\<close> is
  \<open>calculateAtmosphere\<close> of \<open>h\<close> clamped into \<open>[0, 86000]\<close>, the altitude field of the
  result is the clamped value, and in particular \<open>-500\<close> gives the result of \<open>0\<close> and
  \<open>200000\<close> the result of \<open>86000\<close>.
\<close>

theorem calculateAtmosphere_clamps:
  "calculateAtmosphere h = calculateAtmosphere (max 0 (min 86000 h))
   \<and> altitude (calculateAtmosphere h) = max 0 (min 86000 h)
   \<and> calculateAtmosphere (- 500) = calculateAtmosphere 0
   \<and> calculateAtmosphere 200000 = calculateAtmosphere 86000"
proof -
  have idem: "calculateAtmosphere x = calculateAtmosphere (max 0 (min 86000 x))" for x
    unfolding calculateAtmosphere_def clamp_idem ..
  have alt: "altitude (calculateAtmosphere h) = max 0 (min 86000 h)"
    by (simp add: calculateAtmosphere_def Let_def)
  have lo: "calculateAtmosphere (- 500) = calculateAtmosphere 0"
    using idem [of "- 500"] by simp
  have hi: "calculateAtmosphere 200000 = calculateAtmosphere 86000"
    using idem [of 200000] by simp
  from idem [of h] alt lo hi show ?thesis by blast
qed

subsection \<open>Pressure\<close>

text \<open>
  Claim C2. For an altitude \<open>h\<close> in \<open>[0, 86000]\<close> the pressure of the result is one of
  two closed forms, chosen by the test \<open>L = 0\<close> on the lapse rate of the resolved layer
  (an equality, with no tolerance): \<open>Pb * exp (- g0 * (h - hb) / (R * T))\<close> when \<open>L = 0\<close>
  and \<open>Pb * (T / Tb) powr (- g0 / (L * R))\<close> otherwise, where \<open>Pb\<close>, \<open>Tb\<close>, \<open>hb\<close>, \<open>L\<close>
  are those of the resolved layer and \<open>T\<close> is the temperature at \<open>h\<close>. The base of the
  power is positive, and the first form is the one used exactly on the two isothermal
  layers and at \<open>h = 86000\<close>.
\<close>

theorem pressure_two_closed_forms:
  "0 \<le> h \<and> h \<le> 86000 \<longrightarrow>
     layer (calculateAtmosphere h) = getLayer h
     \<and> temperature (calculateAtmosphere h) = calculateTemperature h
     \<and> pressure (calculateAtmosphere h) =
         (if lapseRate (getLayer h) = 0
          then basePressure (getLayer h)
                 * exp (- ISA_g0 * (h - baseAltitude (getLayer h)) / (ISA_R * calculateTemperature h))
          else basePressure (getLayer h)
                 * (calculateTemperature h / baseTemperature (getLayer h))
                     powr (- ISA_g0 / (lapseRate (getLayer h) * ISA_R)))
     \<and> 0 < calculateTemperature h / baseTemperature (getLayer h)
     \<and> (lapseRate (getLayer h) = 0 \<longleftrightarrow>
          (11000 \<le> h \<and> h < 20000) \<or> (47000 \<le> h \<and> h < 51000) \<or> h = 86000)"
proof (intro impI)
  assume range: "0 \<le> h \<and> h \<le> 86000"
  then have clamp: "max 0 (min 86000 h) = h" by simp
  have l: "layer (calculateAtmosphere h) = getLayer h"
    by (simp add: calculateAtmosphere_fields clamp)
  have t: "temperature (calculateAtmosphere h) = calculateTemperature h"
    by (simp add: calculateAtmosphere_fields clamp)
  have p: "pressure (calculateAtmosphere h) = calculatePressure h"
    by (simp add: calculateAtmosphere_fields clamp)
  have forms: "calculatePressure h =
         (if lapseRate (getLayer h) = 0
          then basePressure (getLayer h)
                 * exp (- ISA_g0 * (h - baseAltitude (getLayer h)) / (ISA_R * calculateTemperature h))
          else basePressure (getLayer h)
                 * (calculateTemperature h / baseTemperature (getLayer h))
                     powr (- ISA_g0 / (lapseRate (getLayer h) * ISA_R)))"
    by (simp add: calculatePressure_def Let_def)
  have base: "0 < calculateTemperature h / baseTemperature (getLayer h)"
    using calculateTemperature_pos [of h] baseTemperature_pos [of h] by simp
  have iso: "lapseRate (getLayer h) = 0 \<longleftrightarrow>
          (11000 \<le> h \<and> h < 20000) \<or> (47000 \<le> h \<and> h < 51000) \<or> h = 86000"
    using range unfolding lapseRate_zero_iff by auto
  from l t p forms base iso
  show "layer (calculateAtmosphere h) = getLayer h
     \<and> temperature (calculateAtmosphere h) = calculateTemperature h
     \<and> pressure (calculateAtmosphere h) =
         (if lapseRate (getLayer h) = 0
          then basePressure (getLayer h)
                 * exp (- ISA_g0 * (h - baseAltitude (getLayer h)) / (ISA_R * calculateTemperature h))
          else basePressure (getLayer h)
                 * (calculateTemperature h / baseTemperature (getLayer h))
                     powr (- ISA_g0 / (lapseRate (getLayer h) * ISA_R)))
     \<and> 0 < calculateTemperature h / baseTemperature (getLayer h)
     \<and> (lapseRate (getLayer h) = 0 \<longleftrightarrow>
          (11000 \<le> h \<and> h < 20000) \<or> (47000 \<le> h \<and> h < 51000) \<or> h = 86000)"
    by (simp only: simp_thms)
qed


lemma getLayer_15000: "getLayer 15000 = LAYERS ! Suc 0"
  unfolding getLayer_ranges by simp

lemma getLayer_5000: "getLayer 5000 = LAYERS ! 0"
  unfolding getLayer_ranges by simp


theorem pressure_two_closed_forms_witness:
  "(0::real) \<le> 15000 \<and> (15000::real) \<le> 86000
   \<and> pressure (calculateAtmosphere 15000) = 22632.1 * exp (- ISA_g0 * 4000 / (ISA_R * 216.65))
   \<and> (0::real) \<le> 5000 \<and> (5000::real) \<le> 86000
   \<and> pressure (calculateAtmosphere 5000)
       = 101325 * (255.65 / 288.15) powr (- ISA_g0 / (- 0.0065 * ISA_R))"
proof -
  have a: "calculateTemperature 15000 = 216.65" "calculateTemperature 5000 = 255.65"
    unfolding calculateTemperature_ranges by simp_all
  show ?thesis
    using pressure_two_closed_forms [of 15000] pressure_two_closed_forms [of 5000]
    by (simp add: a getLayer_15000 getLayer_5000 LAYERS_nth)
qed

subsection \<open>Density\<close>

text \<open>
  Claim C4. The density of a result is its own pressure divided by \<open>R\<close> times its own
  temperature, at every altitude (in particular for \<open>h\<close> in \<open>[0, 86000]\<close>); the divisor
  is positive, so the quotient is a genuine one.
\<close>

theorem density_ideal_gas:
  "density (calculateAtmosphere h)
     = pressure (calculateAtmosphere h) / (ISA_R * temperature (calculateAtmosphere h))
   \<and> 0 < ISA_R * temperature (calculateAtmosphere h)"
proof
  show "density (calculateAtmosphere h)
     = pressure (calculateAtmosphere h) / (ISA_R * temperature (calculateAtmosphere h))"
    by (simp add: calculateAtmosphere_def Let_def calculateDensity_def)
  show "0 < ISA_R * temperature (calculateAtmosphere h)"
    using ISA_R_pos calculateTemperature_pos [of "max 0 (min 86000 h)"]
    by (simp add: calculateAtmosphere_fields)
qed

subsection \<open>Continuity of the temperature at the layer boundaries\<close>

text \<open>
  At the six boundaries from 11000 m to 71000 m the linear formula of the lower layer,
  evaluated at the boundary, is the base temperature of the upper layer.
\<close>

lemma temperature_continuous_below_86000:
  "baseTemperature (LAYERS ! 0)
     + lapseRate (LAYERS ! 0) * (baseAltitude (LAYERS ! 1) - baseAltitude (LAYERS ! 0))
     = baseTemperature (LAYERS ! 1)"
  "baseTemperature (LAYERS ! 1)
     + lapseRate (LAYERS ! 1) * (baseAltitude (LAYERS ! 2) - baseAltitude (LAYERS ! 1))
     = baseTemperature (LAYERS ! 2)"
  "baseTemperature (LAYERS ! 2)
     + lapseRate (LAYERS ! 2) * (baseAltitude (LAYERS ! 3) - baseAltitude (LAYERS ! 2))
     = baseTemperature (LAYERS ! 3)"
  "baseTemperature (LAYERS ! 3)
     + lapseRate (LAYERS ! 3) * (baseAltitude (LAYERS ! 4) - baseAltitude (LAYERS ! 3))
     = baseTemperature (LAYERS ! 4)"
  "baseTemperature (LAYERS ! 4)
     + lapseRate (LAYERS ! 4) * (baseAltitude (LAYERS ! 5) - baseAltitude (LAYERS ! 4))
     = baseTemperature (LAYERS ! 5)"
  "baseTemperature (LAYERS ! 5)
     + lapseRate (LAYERS ! 5) * (baseAltitude (LAYERS ! 6) - baseAltitude (LAYERS ! 5))
     = baseTemperature (LAYERS ! 6)"
  by (simp_all add: LAYERS_nth)

text \<open>
  Below 86000 m the temperature of the Mesosphere II layer falls to 184.65 K, and at
  86000 m the table gives 186.87 K.
\<close>

lemma temperature_gap_below_86000:
  "71000 \<le> h \<Longrightarrow> h < 86000 \<Longrightarrow>
   calculateTemperature 86000 - calculateTemperature h = 2.22 - 0.002 * (86000 - h)"
  unfolding calculateTemperature_ranges by (simp add: field_simps)

text \<open>
  Claim C3. The temperature is continuous at each of the seven internal boundaries. It
  is not at the seventh: the formula of Mesosphere II at 86000 m gives 184.65 K, the
  base temperature of the Mesopause entry is 186.87 K, and \<open>calculateTemperature\<close>
  jumps accordingly between 85999 m and 86000 m.
\<close>

theorem temperature_jump_at_86000:
  "baseTemperature (LAYERS ! 6)
     + lapseRate (LAYERS ! 6) * (baseAltitude (LAYERS ! 7) - baseAltitude (LAYERS ! 6)) = 184.65
   \<and> baseTemperature (LAYERS ! 7) = 186.87
   \<and> calculateTemperature 85999 = 184.652
   \<and> calculateTemperature 86000 = 186.87"
proof -
  have "calculateTemperature 85999 = 184.652" "calculateTemperature 86000 = 186.87"
    unfolding calculateTemperature_ranges by simp_all
  then show ?thesis by (simp add: LAYERS_nth)
qed

subsection \<open>The standalone functions above 86000 m\<close>

lemma getLayer_above: "86000 \<le> h \<Longrightarrow> getLayer h = LAYERS ! 7"
  unfolding getLayer_ranges by simp

lemma calculatePressure_above:
  "86000 \<le> h \<Longrightarrow>
   calculatePressure h = 0.3734 * exp (- ISA_g0 * (h - 86000) / (ISA_R * 186.87))"
  by (simp add: calculatePressure_def Let_def getLayer_above calculateTemperature_ranges LAYERS_nth)

lemma calculatePressure_86000: "calculatePressure 86000 = 0.3734"
  using calculatePressure_above [of 86000] by simp

text \<open>
  Claim C10. \<open>calculateTemperature\<close> and \<open>calculatePressure\<close> do not clamp: for
  \<open>h > 86000\<close> they evaluate the formulas of the Mesopause layer at \<open>h\<close> itself, so
  \<open>calculatePressure h\<close> is below \<open>calculatePressure 86000\<close>, which is the pressure
  field of \<open>calculateAtmosphere h\<close>, and the two differ.
\<close>

theorem standalone_functions_do_not_clamp:
  "86000 < h \<Longrightarrow>
     getLayer h = LAYERS ! 7 \<and> name (getLayer h) = ''Mesopause''
     \<and> calculateTemperature h
         = baseTemperature (LAYERS ! 7) + lapseRate (LAYERS ! 7) * (h - baseAltitude (LAYERS ! 7))
     \<and> calculatePressure h
         = basePressure (LAYERS ! 7)
             * exp (- ISA_g0 * (h - baseAltitude (LAYERS ! 7)) / (ISA_R * calculateTemperature h))
     \<and> calculatePressure h < calculatePressure 86000
     \<and> pressure (calculateAtmosphere h) = calculatePressure 86000
     \<and> calculatePressure h \<noteq> pressure (calculateAtmosphere h)"
proof -
  assume h: "86000 < h"
  then have ge: "86000 \<le> h" by simp
  have l: "getLayer h = LAYERS ! 7" using ge by (rule getLayer_above)
  have n: "name (getLayer h) = ''Mesopause''" unfolding l by (simp add: LAYERS_nth)
  have t: "calculateTemperature h
         = baseTemperature (LAYERS ! 7) + lapseRate (LAYERS ! 7) * (h - baseAltitude (LAYERS ! 7))"
    by (simp add: calculateTemperature_def Let_def l)
  have p: "calculatePressure h
         = basePressure (LAYERS ! 7)
             * exp (- ISA_g0 * (h - baseAltitude (LAYERS ! 7)) / (ISA_R * calculateTemperature h))"
    by (simp add: calculatePressure_def Let_def l LAYERS_nth)
  have "- ISA_g0 * (h - 86000) / (ISA_R * 186.87) < 0"
    using h by (simp add: ISA_g0_def ISA_R_def field_simps)
  then have "exp (- ISA_g0 * (h - 86000) / (ISA_R * 186.87)) < 1"
    by (simp only: exp_less_one_iff)
  then have lt: "calculatePressure h < calculatePressure 86000"
    unfolding calculatePressure_above [OF ge] calculatePressure_86000 by simp
  have c: "pressure (calculateAtmosphere h) = calculatePressure 86000"
    using h by (simp add: calculateAtmosphere_fields)
  from l n t p lt c show ?thesis by simp
qed

theorem standalone_functions_do_not_clamp_witness:
  "(86000::real) < 90000 \<and> calculatePressure 90000 < calculatePressure 86000
   \<and> calculatePressure 90000 \<noteq> pressure (calculateAtmosphere 90000)
   \<and> calculateTemperature 90000 = 186.87"
  using standalone_functions_do_not_clamp [of 90000] by (simp add: LAYERS_nth)

subsection \<open>Facts about binary64 rounding\<close>

subsubsection \<open>Rounding to an integer\<close>

lemma roundTiesToEven_of_int [simp]: "roundTiesToEven (of_int n) = n"
  by (simp add: roundTiesToEven_def)

lemma roundTiesToEven_0 [simp]: "roundTiesToEven 0 = 0"
  by (simp add: roundTiesToEven_def)

lemma roundTiesToEven_half:
  "roundTiesToEven (of_int n + 1 / 2) = (if even n then n else n + 1)"
proof -
  have "\<lfloor>of_int n + (1 / 2 :: real)\<rfloor> = n"
    by (rule floor_unique) simp_all
  then show ?thesis by (simp add: roundTiesToEven_def Let_def)
qed



lemma roundTiesToEven_ge: "of_int m \<le> x \<Longrightarrow> m \<le> roundTiesToEven x"
proof -
  assume "of_int m \<le> x"
  then have "m \<le> \<lfloor>x\<rfloor>" by (simp add: le_floor_iff)
  moreover have "\<lfloor>x\<rfloor> \<le> roundTiesToEven x"
    by (simp add: roundTiesToEven_def Let_def)
  ultimately show ?thesis by linarith
qed

subsubsection \<open>The exponent and the unit in the last place\<close>

lemma binary64_ulp_pos: "0 < binary64_ulp x"
  by (simp add: binary64_ulp_def)

lemma floor_log2_eq:
  "2 powr of_int k \<le> \<bar>x\<bar> \<Longrightarrow> \<bar>x\<bar> < 2 powr of_int (k + 1) \<Longrightarrow> \<lfloor>log 2 \<bar>x\<bar>\<rfloor> = k"
proof -
  assume a: "2 powr of_int k \<le> \<bar>x\<bar>" "\<bar>x\<bar> < 2 powr of_int (k + 1)"
  have "0 < (2::real) powr of_int k" by simp
  with a have "0 < \<bar>x\<bar>" by linarith
  then show ?thesis using a by (simp add: floor_log_eq_powr_iff)
qed



lemma binary64_exponent_normal:
  "2 powr (- 1022) \<le> \<bar>x\<bar> \<Longrightarrow> binary64_exponent x = \<lfloor>log 2 \<bar>x\<bar>\<rfloor>"
proof -
  assume a: "2 powr (- 1022) \<le> \<bar>x\<bar>"
  have "0 < (2::real) powr (- 1022)" by simp
  with a have pos: "0 < \<bar>x\<bar>" by linarith
  have "(- 1022 :: real) \<le> log 2 \<bar>x\<bar>"
    using a pos by (simp add: le_log_iff)
  then have "- 1022 \<le> \<lfloor>log 2 \<bar>x\<bar>\<rfloor>" by (simp add: le_floor_iff)
  then show ?thesis by (simp add: binary64_exponent_def)
qed

subsubsection \<open>Rounding to the nearest binary64 value\<close>

lemma binary64_nearest_0 [simp]: "binary64_nearest 0 = 0"
  by (simp add: binary64_nearest_def)

lemma binary64_nearest_exact:
  "x / binary64_ulp x = of_int m \<Longrightarrow> binary64_nearest x = x"
proof -
  assume a: "x / binary64_ulp x = of_int m"
  have "binary64_ulp x * (x / binary64_ulp x) = x"
    using binary64_ulp_pos [of x] by simp
  then show ?thesis
    unfolding binary64_nearest_def a by simp
qed



lemma binary64_nearest_of_int:
  assumes "\<bar>n\<bar> < 2 ^ 53"
  shows "binary64_nearest (of_int n) = of_int n"
proof (cases "n = 0")
  case True
  then show ?thesis by simp
next
  case False
  let ?x = "real_of_int n"
  let ?e = "\<lfloor>log 2 \<bar>?x\<bar>\<rfloor>"
  have one: "1 \<le> \<bar>?x\<bar>" using False by (simp flip: of_int_abs)
  have "(2::real) powr (- 1022) \<le> 2 powr 0" by (intro powr_mono) simp_all
  with one have normal: "2 powr (- 1022) \<le> \<bar>?x\<bar>" by simp
  have e: "binary64_exponent ?x = ?e" using normal by (rule binary64_exponent_normal)
  have "\<bar>?x\<bar> < 2 ^ 53" using assms by (simp flip: of_int_abs)
  then have "\<bar>?x\<bar> < 2 powr 53" by simp
  then have "log 2 \<bar>?x\<bar> < 53" using one by (simp add: log_less_iff)
  then have hi: "?e \<le> 52" by (simp add: floor_less_iff flip: less_iff_succ_less_eq)
  have "1 / binary64_ulp ?x = 2 powr of_int (52 - ?e)"
    by (simp add: binary64_ulp_def e powr_diff powr_minus field_simps)
  also have "\<dots> = 2 ^ nat (52 - ?e)"
    using hi by (simp add: powr_realpow [symmetric])
  finally have "?x / binary64_ulp ?x = of_int (n * 2 ^ nat (52 - ?e))"
    by (simp add: divide_inverse)
  then show ?thesis by (rule binary64_nearest_exact)
qed





subsubsection \<open>Overflow\<close>

lemma binary64_round_Finite:
  "\<bar>binary64_nearest x\<bar> \<le> binary64_max \<Longrightarrow> binary64_round x = Finite (binary64_nearest x)"
  by (auto simp: binary64_round_def Let_def)

lemma is_binary64_iff: "is_binary64 x \<longleftrightarrow> binary64_nearest x = x \<and> \<bar>x\<bar> \<le> binary64_max"
  by (auto simp: is_binary64_def binary64_round_def Let_def)

lemma binary64_max_ge: "2 ^ 53 \<le> binary64_max"
  by (simp add: binary64_max_def)

lemma is_binary64_of_int: "\<bar>n\<bar> < 2 ^ 53 \<Longrightarrow> is_binary64 (of_int n)"
proof -
  assume a: "\<bar>n\<bar> < 2 ^ 53"
  then have "\<bar>real_of_int n\<bar> < 2 ^ 53" by (simp flip: of_int_abs)
  with binary64_max_ge have "\<bar>real_of_int n\<bar> \<le> binary64_max" by linarith
  with binary64_nearest_of_int [OF a] show ?thesis by (simp add: is_binary64_iff)
qed

subsubsection \<open>Relative error, overflow and concrete values\<close>

lemma binary64_ulp_eq:
  assumes "2 powr of_int k \<le> \<bar>x\<bar>" "\<bar>x\<bar> < 2 powr of_int (k + 1)" "- 1022 \<le> k"
  shows "binary64_ulp x = 2 powr of_int (k - 52)"
proof -
  from floor_log2_eq [OF assms(1,2)] assms(3)
  have "binary64_exponent x = k" by (simp add: binary64_exponent_def)
  then show ?thesis by (simp add: binary64_ulp_def)
qed

lemma binary64_ulp_2:
  "2 ^ 53 \<le> \<bar>x\<bar> \<Longrightarrow> \<bar>x\<bar> < 2 ^ 54 \<Longrightarrow> binary64_ulp x = 2"
  using binary64_ulp_eq [of 53 x] by simp






lemma is_binary64_nat_mult:
  "k * m < 2 ^ 53 \<Longrightarrow> is_binary64 (real k * real m)"
proof -
  assume "k * m < 2 ^ 53"
  then have "\<bar>int (k * m)\<bar> < 2 ^ 53" by (simp flip: of_nat_mult add: of_nat_less_numeral_power_cancel_iff)
  from is_binary64_of_int [OF this] show ?thesis by simp
qed





text \<open>An odd integer between \<open>2 ^ 53\<close> and \<open>2 ^ 54\<close> is a tie, and goes to the even side.\<close>

lemma binary64_round_odd:
  assumes "2 ^ 53 \<le> 2 * N + 1" "2 * N + 1 < 2 ^ 54"
  shows "binary64_round (of_int (2 * N + 1))
           = Finite (of_int (2 * (if even N then N else N + 1)))"
proof -
  let ?x = "real_of_int (2 * N + 1)"
  have "2 ^ 53 \<le> \<bar>?x\<bar>" "\<bar>?x\<bar> < 2 ^ 54"
    using assms by (simp_all flip: of_int_abs add: of_int_le_numeral_power_cancel_iff of_int_less_numeral_power_cancel_iff)
  then have u: "binary64_ulp ?x = 2" by (rule binary64_ulp_2)
  have "?x / 2 = of_int N + 1 / 2" by simp
  then have "roundTiesToEven (?x / 2) = (if even N then N else N + 1)"
    by (simp only: roundTiesToEven_half)
  then have n: "binary64_nearest ?x = of_int (2 * (if even N then N else N + 1))"
    unfolding binary64_nearest_def u by simp
  have "\<bar>real_of_int (2 * (if even N then N else N + 1))\<bar> \<le> 2 ^ 54"
    using assms by (simp flip: of_int_abs add: of_int_le_numeral_power_cancel_iff)
  also have "\<dots> \<le> binary64_max" by (simp add: binary64_max_def)
  finally show ?thesis unfolding n [symmetric] by (rule binary64_round_Finite)
qed

subsection \<open>Altitude units\<close>








subsection \<open>The profile generator\<close>

lemma sampleCount_step:
  assumes "0 < stepM" "alt \<le> endAltM"
  shows "sampleCount alt endAltM stepM = Suc (sampleCount (alt + stepM) endAltM stepM)"
proof (cases "alt + stepM \<le> endAltM")
  case True
  have "(endAltM - alt) / stepM = (endAltM - (alt + stepM)) / stepM + 1"
    using assms by (simp add: field_simps)
  moreover have "0 \<le> (endAltM - (alt + stepM)) / stepM"
    using assms True by simp
  ultimately have "nat \<lfloor>(endAltM - alt) / stepM\<rfloor> = Suc (nat \<lfloor>(endAltM - (alt + stepM)) / stepM\<rfloor>)"
    by (simp add: nat_add_distrib)
  with True assms show ?thesis by (simp add: sampleCount_def)
next
  case False
  then have "(endAltM - alt) / stepM < 1" using assms by (simp add: field_simps)
  moreover have "0 \<le> (endAltM - alt) / stepM" using assms by simp
  ultimately have "\<lfloor>(endAltM - alt) / stepM\<rfloor> = 0" by (simp add: floor_eq_iff)
  with False assms show ?thesis by (simp add: sampleCount_def)
qed

text \<open>
  When every sum \<open>alt + k * stepM\<close> the loop forms is a binary64 value, no addition
  rounds and the loop returns the results at these altitudes.
\<close>

lemma generateProfile_loop_exact:
  "0 < stepM \<Longrightarrow> sampleCount alt endAltM stepM = n \<Longrightarrow>
   (\<And>k. 1 \<le> k \<Longrightarrow> k \<le> n \<Longrightarrow> is_binary64 (alt + real k * stepM)) \<Longrightarrow>
   generateProfile_loop (Finite alt) endAltM stepM results =
     Some (results @ map (\<lambda>k. calculateAtmosphere (alt + real k * stepM)) [0..<n])"
proof (induction n arbitrary: alt results)
  case 0
  then have "\<not> alt \<le> endAltM" by (simp add: sampleCount_def split: if_splits)
  then show ?case by (subst generateProfile_loop.simps) simp
next
  case (Suc n)
  then have le: "alt \<le> endAltM" by (simp add: sampleCount_def split: if_splits)
  with Suc.prems sampleCount_step [of stepM alt endAltM]
  have n: "sampleCount (alt + stepM) endAltM stepM = n" by simp
  have "is_binary64 (alt + real 1 * stepM)" by (rule Suc.prems(3)) simp_all
  then have add: "number_add (Finite alt) stepM = Finite (alt + stepM)"
    by (simp add: is_binary64_def)
  have exact: "is_binary64 (alt + stepM + real k * stepM)" if "1 \<le> k" "k \<le> n" for k
    using Suc.prems(3) [of "Suc k"] that by (simp add: algebra_simps)
  from Suc.IH [OF Suc.prems(1) n exact, of "results @ [calculateAtmosphere alt]"] le add
  have "generateProfile_loop (Finite alt) endAltM stepM results =
     Some (results @ calculateAtmosphere alt
             # map (\<lambda>k. calculateAtmosphere (alt + stepM + real k * stepM)) [0..<n])"
    by (subst generateProfile_loop.simps) simp
  moreover have "map (\<lambda>k. calculateAtmosphere (alt + real k * stepM)) [0..<Suc n]
      = calculateAtmosphere alt # map (\<lambda>k. calculateAtmosphere (alt + stepM + real k * stepM)) [0..<n]"
    by (simp add: upt_conv_Cons map_Suc_upt [symmetric] algebra_simps del: upt_Suc)
  ultimately show ?case by simp
qed

lemma generateProfile_exact:
  "0 < stepM \<Longrightarrow>
   (\<And>k. 1 \<le> k \<Longrightarrow> k \<le> sampleCount startAltM endAltM stepM
        \<Longrightarrow> is_binary64 (startAltM + real k * stepM)) \<Longrightarrow>
   generateProfile startAltM endAltM stepM =
     Some (map (\<lambda>k. calculateAtmosphere (startAltM + real k * stepM))
             [0..<sampleCount startAltM endAltM stepM])"
  unfolding generateProfile_def
  using generateProfile_loop_exact [of stepM startAltM endAltM _ "[]"] by simp

lemma generateProfile_empty:
  "endAltM < startAltM \<Longrightarrow> generateProfile startAltM endAltM stepM = Some []"
  unfolding generateProfile_def by (subst generateProfile_loop.simps) simp





text \<open>
  Claim C5. \<open>generateProfile 0 10000 1000\<close> returns exactly 11 results, those of
  \<open>calculateAtmosphere\<close> at 0, 1000, ..., 10000 in this order, with these strictly
  ascending altitude fields; \<open>generateProfile 10000 0 1000\<close> returns the empty sequence.
\<close>

theorem generateProfile_0_10000_1000:
  "(\<exists>rs. generateProfile 0 10000 1000 = Some rs
      \<and> length rs = 11
      \<and> rs = map calculateAtmosphere
                 [0, 1000, 2000, 3000, 4000, 5000, 6000, 7000, 8000, 9000, 10000]
      \<and> map altitude rs = [0, 1000, 2000, 3000, 4000, 5000, 6000, 7000, 8000, 9000, 10000]
      \<and> sorted_wrt (<) (map altitude rs))
   \<and> generateProfile 10000 0 1000 = Some []"
proof
  have n: "sampleCount 0 10000 1000 = 11"
    by (simp add: sampleCount_def)
  have exact: "is_binary64 (0 + real k * 1000)" if "k \<le> sampleCount 0 10000 1000" for k
  proof -
    from that n have "k * 1000 < 2 ^ 53" by simp
    from is_binary64_nat_mult [OF this] show ?thesis by simp
  qed
  have "[0..<11] = [0, 1, 2, 3, 4, 5, 6, 7, 8, 9, 10::nat]"
    by (simp add: upt_rec)
  with generateProfile_exact [of 1000 0 10000] exact
  have rs: "generateProfile 0 10000 1000 = Some (map calculateAtmosphere
                 [0, 1000, 2000, 3000, 4000, 5000, 6000, 7000, 8000, 9000, 10000])"
    by (simp add: n)
  have alts: "map altitude (map calculateAtmosphere
                 [0, 1000, 2000, 3000, 4000, 5000, 6000, 7000, 8000, 9000, 10000])
      = [0, 1000, 2000, 3000, 4000, 5000, 6000, 7000, 8000, 9000, 10000]"
    by (simp add: calculateAtmosphere_fields)
  have asc: "sorted_wrt (<) [0, 1000, 2000, 3000, 4000, 5000, 6000, 7000, 8000, 9000, 10000::real]"
    by simp
  show "\<exists>rs. generateProfile 0 10000 1000 = Some rs
      \<and> length rs = 11
      \<and> rs = map calculateAtmosphere
                 [0, 1000, 2000, 3000, 4000, 5000, 6000, 7000, 8000, 9000, 10000]
      \<and> map altitude rs = [0, 1000, 2000, 3000, 4000, 5000, 6000, 7000, 8000, 9000, 10000]
      \<and> sorted_wrt (<) (map altitude rs)"
    unfolding rs using alts asc by simp
  show "generateProfile 10000 0 1000 = Some []"
    by (simp add: generateProfile_empty)
qed




text \<open>
  Where the additions round, the number of samples is not the one of exact arithmetic:
  from \<open>2 ^ 53\<close> to \<open>2 ^ 53 + 16\<close> by steps of 5 the loop variable takes the values
  \<open>2 ^ 53\<close>, \<open>+ 4\<close>, \<open>+ 8\<close>, \<open>+ 12\<close>, \<open>+ 16\<close>, five samples where \<open>\<lfloor>16 / 5\<rfloor> + 1\<close> is four.
\<close>

lemma generateProfile_loop_step:
  "a \<le> e \<Longrightarrow> generateProfile_loop (Finite a) e s rs
     = generateProfile_loop (binary64_round (a + s)) e s (rs @ [calculateAtmosphere a])"
  by (subst generateProfile_loop.simps) simp

lemma generateProfile_loop_exit:
  "e < a \<Longrightarrow> generateProfile_loop (Finite a) e s rs = Some rs"
  by (subst generateProfile_loop.simps) simp

lemma rounded_sums:
  "binary64_round 9007199254740997 = Finite 9007199254740996"
  "binary64_round 9007199254741001 = Finite 9007199254741000"
  "binary64_round 9007199254741005 = Finite 9007199254741004"
  "binary64_round 9007199254741009 = Finite 9007199254741008"
  "binary64_round 9007199254741013 = Finite 9007199254741012"
  using binary64_round_odd [of 4503599627370498] binary64_round_odd [of 4503599627370500]
    binary64_round_odd [of 4503599627370502] binary64_round_odd [of 4503599627370504]
    binary64_round_odd [of 4503599627370506]
  by simp_all

lemma generateProfile_rounded_count:
  "\<exists>rs. generateProfile (2 ^ 53) (2 ^ 53 + 16) 5 = Some rs \<and> length rs = 5
     \<and> map altitude rs = [86000, 86000, 86000, 86000, 86000]"
  by (simp add: generateProfile_def generateProfile_loop_step generateProfile_loop_exit
      rounded_sums calculateAtmosphere_fields)





end
